theory Spec2Isabelle
  imports Complex_Main
begin

section \<open>The CSV mesh importer\<close>

text \<open>
  A shallow embedding of \<^verbatim>\<open>CSVMeshImporterOperator.execute\<close>
  (\<^verbatim>\<open>src/csv_mesh_importer.py\<close>). The operator reads the rows that
  \<^verbatim>\<open>csv.reader\<close> yields, so the input of the model is that sequence of rows, each a
  list of string fields. What the Python runtime and the host application decide (how a
  string converts to a float, how floats divide and print, what an exception's text is, how
  the host stores a coordinate, what the host's mesh operators do) enters the model as the
  fields of a record \<open>runtime\<close>;
  every function below takes it as its first argument.
\<close>

subsection \<open>Exceptions and the runtime\<close>

datatype exn =
    StopIteration            \<comment> \<open>\<^verbatim>\<open>next(reader)\<close> on a reader with no row left\<close>
  | KeyError string          \<comment> \<open>\<^verbatim>\<open>headers[name]\<close> on a name that is no key\<close>
  | IndexError_list          \<comment> \<open>\<^verbatim>\<open>row[k]\<close> out of range\<close>
  | ValueError string        \<comment> \<open>\<^verbatim>\<open>float(s)\<close> on a string that is no float\<close>
  | ZeroDivisionError        \<comment> \<open>\<^verbatim>\<open>a / b\<close> with \<^verbatim>\<open>b == 0.0\<close>\<close>
  | IndexError_verts int     \<comment> \<open>\<^verbatim>\<open>bm.verts[k]\<close> out of range\<close>
  | HostError string         \<comment> \<open>raised by a host operator\<close>

type_synonym row = "string list"

type_synonym 'f point = "'f \<times> 'f \<times> 'f"

record 'f bmesh =
  verts :: "'f point list"
  faces :: "(nat \<times> nat \<times> nat) list"

record 'f runtime =
  to_float :: "string \<Rightarrow> 'f option"    \<comment> \<open>\<^verbatim>\<open>float(s)\<close>; \<open>None\<close> where it raises\<close>
  is_zero :: "'f \<Rightarrow> bool"                \<comment> \<open>\<^verbatim>\<open>b == 0.0\<close>, the test float division makes\<close>
  quot :: "'f \<Rightarrow> 'f \<Rightarrow> 'f"               \<comment> \<open>\<^verbatim>\<open>a / b\<close> for a nonzero \<^verbatim>\<open>b\<close>\<close>
  store :: "'f \<Rightarrow> 'f"
    \<comment> \<open>the coordinate as the host keeps it: a vertex of a \<^verbatim>\<open>BMesh\<close> holds 32-bit floats\<close>
  fmt :: "'f \<Rightarrow> string"                 \<comment> \<open>\<^verbatim>\<open>"{}".format(a)\<close>\<close>
  exn_text :: "exn \<Rightarrow> string"           \<comment> \<open>\<^verbatim>\<open>str(e)\<close>\<close>
  host_ops :: "'f bmesh \<Rightarrow> exn + 'f bmesh"
    \<comment> \<open>lines 87 to 133: the mesh the host ends with, or the exception it raises\<close>

fun then_do :: "exn + 'a \<Rightarrow> ('a \<Rightarrow> exn + 'b) \<Rightarrow> exn + 'b" where
  "then_do (Inl e) f = Inl e"
| "then_do (Inr v) f = f v"

definition py_index :: "'a list \<Rightarrow> int \<Rightarrow> exn \<Rightarrow> exn + 'a" where
  \<comment> \<open>\<^verbatim>\<open>xs[i]\<close>: a negative index counts from the end; \<open>e\<close> is raised out of range\<close>
  "py_index xs i e =
     (if 0 \<le> i \<and> i < int (length xs) then Inr (xs ! nat i)
      else if i < 0 \<and> - int (length xs) \<le> i then Inr (xs ! nat (int (length xs) + i))
      else Inl e)"

definition py_float :: "'f runtime \<Rightarrow> string \<Rightarrow> exn + 'f" where
  "py_float rt s = (case to_float rt s of None \<Rightarrow> Inl (ValueError s) | Some v \<Rightarrow> Inr v)"

definition py_div :: "'f runtime \<Rightarrow> 'f \<Rightarrow> 'f \<Rightarrow> exn + 'f" where
  "py_div rt a b = (if is_zero rt b then Inl ZeroDivisionError else Inr (quot rt a b))"

subsection \<open>Decoding rows into points (lines 56 to 72)\<close>

text \<open>The \<^verbatim>\<open>headers\<close> dictionary: the column of each coordinate.\<close>

definition headers :: "string \<rightharpoonup> int" where
  "headers = [''SV_Position.x'' \<mapsto> 2, ''SV_Position.y'' \<mapsto> 3,
              ''SV_Position.z'' \<mapsto> 4, ''SV_Position.w'' \<mapsto> 5]"

definition py_lookup :: "(string \<rightharpoonup> int) \<Rightarrow> string \<Rightarrow> exn + int" where
  "py_lookup d name = (case d name of None \<Rightarrow> Inl (KeyError name) | Some k \<Rightarrow> Inr k)"

definition field :: "'f runtime \<Rightarrow> row \<Rightarrow> string \<Rightarrow> exn + 'f" where
  \<comment> \<open>\<^verbatim>\<open>float(row[headers[name]])\<close>\<close>
  "field rt row name =
     then_do (py_lookup headers name) (\<lambda>k.
     then_do (py_index row k IndexError_list) (py_float rt))"

text \<open>
  \<^verbatim>\<open>float(row[headers[name]]) / float(row[headers['SV_Position.w']])\<close>, evaluated
  left to right: index and convert the dividend, index and convert the divisor, divide.
\<close>

definition coordinate :: "'f runtime \<Rightarrow> row \<Rightarrow> string \<Rightarrow> exn + 'f" where
  "coordinate rt row name =
     then_do (field rt row name) (\<lambda>a.
     then_do (field rt row ''SV_Position.w'') (\<lambda>b.
     py_div rt a b))"

definition decode_row :: "'f runtime \<Rightarrow> row \<Rightarrow> exn + 'f point" where
  "decode_row rt row =
     then_do (coordinate rt row ''SV_Position.x'') (\<lambda>x.
     then_do (coordinate rt row ''SV_Position.y'') (\<lambda>y.
     then_do (coordinate rt row ''SV_Position.z'') (\<lambda>z.
     Inr (x, y, z))))"

text \<open>The loop of line 67: \<open>vertices\<close> grows by one point per row, and the first
  exception ends it.\<close>

fun read_rows :: "'f runtime \<Rightarrow> row list \<Rightarrow> 'f point list \<Rightarrow> exn + 'f point list" where
  "read_rows rt [] vertices = Inr vertices"
| "read_rows rt (row # rest) vertices =
     (case decode_row rt row of
        Inl e \<Rightarrow> Inl e
      | Inr p \<Rightarrow> read_rows rt rest (vertices @ [p]))"

text \<open>Line 63 skips the header with \<^verbatim>\<open>next(reader)\<close>, which raises on a reader
  with no row.\<close>

definition decode :: "'f runtime \<Rightarrow> row list \<Rightarrow> exn + 'f point list" where
  "decode rt rows =
     (case rows of
        [] \<Rightarrow> Inl StopIteration
      | header # rest \<Rightarrow> read_rows rt rest [])"

subsection \<open>Building the mesh (lines 74 to 84)\<close>

text \<open>
  A \<^verbatim>\<open>BMesh\<close> as far as the operator uses it: a vertex table and a face
  list. \<^verbatim>\<open>bm.verts.new\<close> appends a vertex, whose coordinates the host narrows to
  its own 32-bit floats; a vertex is known by its place in the table, so a face is a triple
  of places.
\<close>

definition bmesh_new :: "'f bmesh" where
  "bmesh_new = \<lparr>verts = [], faces = []\<rparr>"

definition store_point :: "'f runtime \<Rightarrow> 'f point \<Rightarrow> 'f point" where
  "store_point rt v = (case v of (x, y, z) \<Rightarrow> (store rt x, store rt y, store rt z))"

definition verts_new :: "'f runtime \<Rightarrow> 'f point \<Rightarrow> 'f bmesh \<Rightarrow> 'f bmesh" where
  "verts_new rt v bm = bm\<lparr>verts := verts bm @ [store_point rt v]\<rparr>"

definition faces_new :: "nat \<times> nat \<times> nat \<Rightarrow> 'f bmesh \<Rightarrow> 'f bmesh" where
  "faces_new f bm = bm\<lparr>faces := faces bm @ [f]\<rparr>"

definition verts_get :: "'f bmesh \<Rightarrow> int \<Rightarrow> exn + nat" where
  \<comment> \<open>\<^verbatim>\<open>bm.verts[i]\<close>: the place of the vertex read, or the \<^verbatim>\<open>IndexError\<close>\<close>
  "verts_get bm i = py_index [0 ..< length (verts bm)] i (IndexError_verts i)"

text \<open>\<^verbatim>\<open>for vertex in vertices: bm.verts.new(vertex)\<close>\<close>

definition add_verts :: "'f runtime \<Rightarrow> 'f point list \<Rightarrow> 'f bmesh \<Rightarrow> 'f bmesh" where
  "add_verts rt vertices bm = fold (verts_new rt) vertices bm"

text \<open>\<^verbatim>\<open>range(start, stop, step)\<close> for a positive step, as the operator calls it.\<close>

function py_range :: "int \<Rightarrow> int \<Rightarrow> int \<Rightarrow> int list" where
  "py_range i stop step =
     (if 0 < step \<and> i < stop then i # py_range (i + step) stop step else [])"
  by pat_completeness auto
termination
  by (relation "measure (\<lambda>(i, stop, step). nat (stop - i))") auto

declare py_range.simps [simp del]

definition corner_indices :: "'f point list \<Rightarrow> int list" where
  "corner_indices vertices = py_range 0 (int (length vertices) - 1) 3"

text \<open>Line 84: the three vertices are read in order, then the face is made.\<close>

definition new_face :: "'f bmesh \<Rightarrow> int \<Rightarrow> exn + 'f bmesh" where
  "new_face bm i =
     then_do (verts_get bm i) (\<lambda>a.
     then_do (verts_get bm (i + 1)) (\<lambda>b.
     then_do (verts_get bm (i + 2)) (\<lambda>c.
     Inr (faces_new (a, b, c) bm))))"

fun add_faces :: "'f point list \<Rightarrow> int list \<Rightarrow> 'f bmesh \<Rightarrow> exn + 'f bmesh" where
  "add_faces vertices [] bm = Inr bm"
| "add_faces vertices (i # rest) bm =
     (if i + 1 < int (length vertices)
      then (case new_face bm i of
              Inl e \<Rightarrow> Inl e
            | Inr bm' \<Rightarrow> add_faces vertices rest bm')
      else add_faces vertices rest bm)"

definition build :: "'f runtime \<Rightarrow> 'f point list \<Rightarrow> exn + 'f bmesh" where
  "build rt vertices =
     add_faces vertices (corner_indices vertices) (add_verts rt vertices bmesh_new)"

subsection \<open>The operator (lines 51 to 145)\<close>

text \<open>
  What the operator does to the host is recorded as the list of its calls, in order:
  the mesh datablock of line 74, the hand-over of the built \<^verbatim>\<open>BMesh\<close> at line 87, the
  host's scene and cleanup operators of lines 88 to 133 (with the mesh they leave), each
  \<^verbatim>\<open>text.write\<close>, and each \<^verbatim>\<open>self.report\<close>.
\<close>

datatype level = INFO | ERROR

datatype status = FINISHED | CANCELLED

datatype 'f event =
    Mesh_new
  | To_mesh "'f bmesh"
  | Scene_ops "'f bmesh"
  | Text_write string
  | Report level string

record 'f outcome =
  events :: "'f event list"
  result :: status

definition newline :: string where
  "newline = [CHR 0x0A]"

definition vertex_line :: "'f runtime \<Rightarrow> 'f point \<Rightarrow> string" where
  \<comment> \<open>\<^verbatim>\<open>"({}, {}, {})\n".format(vertex[0], vertex[1], vertex[2])\<close>\<close>
  "vertex_line rt v =
     (case v of (x, y, z) \<Rightarrow>
        ''('' @ fmt rt x @ '', '' @ fmt rt y @ '', '' @ fmt rt z @ '')'' @ newline)"

definition debug_writes :: "'f runtime \<Rightarrow> 'f point list \<Rightarrow> string list" where
  \<comment> \<open>lines 136 to 138: the strings written, one per \<^verbatim>\<open>text.write\<close>\<close>
  "debug_writes rt vertices = (''Vertices:'' @ newline) # map (vertex_line rt) vertices"

text \<open>The body of the \<^verbatim>\<open>try\<close>: the calls made, and the exception that ended it,
  if one did.\<close>

definition try_body :: "'f runtime \<Rightarrow> row list \<Rightarrow> 'f event list \<times> exn option" where
  "try_body rt rows =
     (case decode rt rows of
        Inl e \<Rightarrow> ([], Some e)
      | Inr vertices \<Rightarrow>
          (case build rt vertices of
             Inl e \<Rightarrow> ([Mesh_new], Some e)
           | Inr bm \<Rightarrow>
               (case host_ops rt bm of
                  Inl e \<Rightarrow> ([Mesh_new, To_mesh bm], Some e)
                | Inr final \<Rightarrow>
                    ([Mesh_new, To_mesh bm, Scene_ops final]
                       @ map Text_write (debug_writes rt vertices), None))))"

definition execute :: "'f runtime \<Rightarrow> row list \<Rightarrow> 'f outcome" where
  "execute rt rows =
     (case try_body rt rows of
        (evs, Some e) \<Rightarrow>
          \<lparr>events = evs @ [Report ERROR (exn_text rt e)], result = CANCELLED\<rparr>
      | (evs, None) \<Rightarrow>
          \<lparr>events = evs @ [Report INFO ''Mesh imported successfully.''], result = FINISHED\<rparr>)"

subsection \<open>The core and the host\<close>



subsection \<open>Rows the specification calls malformed\<close>

text \<open>
  A data row is malformed when it has fewer than 6 fields, or one of the fields 2 to 5 is
  no float, or the field 5 is a float equal to zero. \<open>first_malformed rt rows 1\<close> is
  the number of the first such row, counting the data rows from 1.
\<close>

definition malformed :: "'f runtime \<Rightarrow> row \<Rightarrow> bool" where
  "malformed rt row \<longleftrightarrow>
     length row < 6 \<or> to_float rt (row ! 2) = None \<or> to_float rt (row ! 3) = None
       \<or> to_float rt (row ! 4) = None
       \<or> (case to_float rt (row ! 5) of None \<Rightarrow> True | Some w \<Rightarrow> is_zero rt w)"

fun first_malformed :: "'f runtime \<Rightarrow> row list \<Rightarrow> nat \<Rightarrow> nat option" where
  "first_malformed rt [] n = None"
| "first_malformed rt (row # rest) n =
     (if malformed rt row then Some n else first_malformed rt rest (Suc n))"

fun row_error :: "exn \<Rightarrow> bool" where
  "row_error IndexError_list = True"
| "row_error (ValueError s) = True"
| "row_error ZeroDivisionError = True"
| "row_error e = False"

subsection \<open>A runtime to compute with\<close>

text \<open>
  A runtime whose floats are the rationals, with exact comparison and division. Its
  \<open>literal_float\<close> reads the plain decimal literals (an optional minus sign, digits, at
  most one point) and rejects every other string; \<open>show_float\<close> prints a number the way
  Python prints a float whose decimal expansion is short; \<open>narrow32\<close> rounds a number to
  the nearest one with 24 significant bits, ties to even, as the conversion to a 32-bit
  float does within its normal range. The concrete inputs below use whole numbers only, on
  which exact and floating-point arithmetic agree.
\<close>

definition digit :: "char \<Rightarrow> nat option" where
  "digit = map_of (zip ''0123456789'' [0, 1, 2, 3, 4, 5, 6, 7, 8, 9])"

fun digits :: "string \<Rightarrow> nat \<Rightarrow> nat option" where
  "digits [] acc = Some acc"
| "digits (c # cs) acc =
     (case digit c of None \<Rightarrow> None | Some d \<Rightarrow> digits cs (10 * acc + d))"

definition unsigned_literal :: "string \<Rightarrow> rat option" where
  "unsigned_literal s =
     (let whole = takeWhile (\<lambda>c. c \<noteq> CHR ''.'') s;
          frac = drop 1 (dropWhile (\<lambda>c. c \<noteq> CHR ''.'') s)
      in if whole @ frac = [] then None
         else map_option (\<lambda>n. of_nat n / 10 ^ length frac) (digits (whole @ frac) 0))"

definition literal_float :: "string \<Rightarrow> rat option" where
  "literal_float s =
     (case s of
        [] \<Rightarrow> None
      | c # cs \<Rightarrow> if c = CHR ''-'' then map_option uminus (unsigned_literal cs)
                  else unsigned_literal s)"

function show_nat :: "nat \<Rightarrow> string" where
  "show_nat n =
     (if n < 10 then [''0123456789'' ! n]
      else show_nat (n div 10) @ [''0123456789'' ! (n mod 10)])"
  by pat_completeness auto
termination
  by (relation "measure id") auto

declare show_nat.simps [simp del]

definition show_int :: "int \<Rightarrow> string" where
  "show_int i = (if i < 0 then ''-'' @ show_nat (nat (- i)) else show_nat (nat i))"

fun show_frac :: "nat \<Rightarrow> rat \<Rightarrow> string" where
  "show_frac 0 r = []"
| "show_frac (Suc n) r =
     (if r = 0 then []
      else (''0123456789'' ! nat \<lfloor>r * 10\<rfloor>) # show_frac n (r * 10 - of_int \<lfloor>r * 10\<rfloor>))"

definition show_float :: "rat \<Rightarrow> string" where
  "show_float q =
     (let a = \<bar>q\<bar>; f = show_frac 17 (a - of_int \<lfloor>a\<rfloor>)
      in (if q < 0 then ''-'' else []) @ show_nat (nat \<lfloor>a\<rfloor>) @ ''.''
           @ (if f = [] then ''0'' else f))"

definition round_even :: "rat \<Rightarrow> int" where
  "round_even a =
     (let f = \<lfloor>a\<rfloor>; d = a - of_int f
      in if d < 1 / 2 then f else if 1 / 2 < d then f + 1 else if even f then f else f + 1)"

fun narrow_pos :: "nat \<Rightarrow> rat \<Rightarrow> rat" where
  "narrow_pos 0 a = a"
| "narrow_pos (Suc n) a =
     (if 16777216 \<le> a then 2 * narrow_pos n (a / 2)
      else if a < 8388608 then narrow_pos n (a * 2) / 2
      else of_int (round_even a))"

definition narrow32 :: "rat \<Rightarrow> rat" where
  "narrow32 q =
     (if q = 0 then 0 else if q < 0 then - narrow_pos 300 (- q) else narrow_pos 300 q)"

text \<open>The texts of the exceptions, as CPython and the host word them.\<close>

fun exception_text :: "exn \<Rightarrow> string" where
  "exception_text StopIteration = []"
| "exception_text (KeyError k) = [CHR 0x27] @ k @ [CHR 0x27]"
| "exception_text IndexError_list = ''list index out of range''"
| "exception_text (ValueError s) =
     ''could not convert string to float: '' @ [CHR 0x27] @ s @ [CHR 0x27]"
| "exception_text ZeroDivisionError = ''float division by zero''"
| "exception_text (IndexError_verts i) =
     ''BMElemSeq[index]: index '' @ show_int i @ '' out of range''"
| "exception_text (HostError s) = s"

text \<open>
  Modelled from the spec: the host's merge by distance
  (\<^verbatim>\<open>bpy.ops.mesh.remove_doubles(threshold=0.001)\<close>, line 105), which is the
  host's code and not the repository's. Two vertices at distance at most 0.001 become
  one, the first seen surviving; the faces are rewritten to the survivors, and a face left
  with fewer than three distinct vertices is removed.
\<close>

definition close_to :: "rat point \<Rightarrow> rat point \<Rightarrow> bool" where
  "close_to p q =
     (case p of (a, b, c) \<Rightarrow> case q of (d, e, f) \<Rightarrow>
        (a - d) * (a - d) + (b - e) * (b - e) + (c - f) * (c - f)
          \<le> (1 / 1000) * (1 / 1000))"

fun first_close :: "rat point list \<Rightarrow> rat point \<Rightarrow> nat \<Rightarrow> nat option" where
  "first_close [] p k = None"
| "first_close (q # qs) p k = (if close_to q p then Some k else first_close qs p (Suc k))"

fun merge_verts ::
  "rat point list \<Rightarrow> rat point list \<Rightarrow> nat list \<Rightarrow> rat point list \<times> nat list" where
  "merge_verts [] kept places = (kept, places)"
| "merge_verts (p # ps) kept places =
     (case first_close kept p 0 of
        Some k \<Rightarrow> merge_verts ps kept (places @ [k])
      | None \<Rightarrow> merge_verts ps (kept @ [p]) (places @ [length kept]))"

definition remove_doubles :: "rat bmesh \<Rightarrow> rat bmesh" where
  "remove_doubles bm =
     (case merge_verts (verts bm) [] [] of
        (kept, places) \<Rightarrow>
          \<lparr>verts = kept,
           faces = filter (\<lambda>(a, b, c). a \<noteq> b \<and> b \<noteq> c \<and> a \<noteq> c)
                     (map (\<lambda>(a, b, c). (places ! a, places ! b, places ! c)) (faces bm))\<rparr>)"

definition reference_rt :: "rat runtime" where
  "reference_rt =
     \<lparr>to_float = literal_float, is_zero = (\<lambda>b. b = 0), quot = (\<lambda>a b. a / b),
      store = narrow32, fmt = show_float, exn_text = exception_text,
      host_ops = (\<lambda>bm. Inr (remove_doubles bm))\<rparr>"

text \<open>The calls of an outcome, by kind.\<close>

fun reports :: "'f event list \<Rightarrow> (level \<times> string) list" where
  "reports [] = []"
| "reports (Report l m # evs) = (l, m) # reports evs"
| "reports (ev # evs) = reports evs"

fun text_written :: "'f event list \<Rightarrow> string list" where
  "text_written [] = []"
| "text_written (Text_write s # evs) = s # text_written evs"
| "text_written (ev # evs) = text_written evs"

fun final_verts :: "'f event list \<Rightarrow> 'f point list option" where
  "final_verts [] = None"
| "final_verts (Scene_ops m # evs) = Some (verts m)"
| "final_verts (ev # evs) = final_verts evs"

subsection \<open>Concrete inputs\<close>

text \<open>Rows as \<^verbatim>\<open>csv.reader\<close> yields them: a header, then data rows whose fields 2 to 5
  are x, y, z and w.\<close>

definition header_row :: row where
  "header_row = [''VTX'', ''IDX'', ''SV_Position.x'', ''SV_Position.y'', ''SV_Position.z'',
     ''SV_Position.w'']"

definition two_rows_csv :: "row list" where
  "two_rows_csv =
     [header_row,
      [''0'', ''0'', ''0'', ''0'', ''0'', ''1''],
      [''1'', ''1'', ''1'', ''0'', ''0'', ''1'']]"

definition three_rows_csv :: "row list" where
  "three_rows_csv =
     [header_row,
      [''0'', ''0'', ''2'', ''4'', ''6'', ''2''],
      [''1'', ''1'', ''1'', ''0'', ''0'', ''1''],
      [''2'', ''2'', ''0'', ''1'', ''0'', ''1'']]"

definition five_rows_csv :: "row list" where
  "five_rows_csv =
     [header_row,
      [''0'', ''0'', ''0'', ''0'', ''0'', ''1''],
      [''1'', ''1'', ''1'', ''0'', ''0'', ''1''],
      [''2'', ''2'', ''0'', ''1'', ''0'', ''1''],
      [''3'', ''3'', ''0'', ''0'', ''1'', ''1''],
      [''4'', ''4'', ''1'', ''1'', ''0'', ''1'']]"

text \<open>Six points, the fourth and fifth repeating the first and second.\<close>

definition duplicate_csv :: "row list" where
  "duplicate_csv =
     [header_row,
      [''0'', ''0'', ''0'', ''0'', ''0'', ''1''],
      [''1'', ''1'', ''1'', ''0'', ''0'', ''1''],
      [''2'', ''2'', ''0'', ''1'', ''0'', ''1''],
      [''3'', ''3'', ''0'', ''0'', ''0'', ''1''],
      [''4'', ''4'', ''1'', ''0'', ''0'', ''1''],
      [''5'', ''5'', ''0'', ''1'', ''1'', ''1'']]"

text \<open>One point whose x is \<open>2 ^ 24 + 1\<close>, a whole number that no 32-bit float holds.\<close>

definition wide_csv :: "row list" where
  "wide_csv = [header_row, [''0'', ''0'', ''16777217'', ''0'', ''0'', ''1'']]"


text \<open>A row whose w is zero, first and second among the data rows; a row of four fields.\<close>

definition zero_w_first_csv :: "row list" where
  "zero_w_first_csv =
     [header_row,
      [''0'', ''0'', ''1'', ''2'', ''3'', ''0''],
      [''1'', ''1'', ''1'', ''0'', ''0'', ''1'']]"

definition zero_w_second_csv :: "row list" where
  "zero_w_second_csv =
     [header_row,
      [''1'', ''1'', ''1'', ''0'', ''0'', ''1''],
      [''0'', ''0'', ''1'', ''2'', ''3'', ''0'']]"

definition short_row_csv :: "row list" where
  "short_row_csv =
     [header_row,
      [''1'', ''1'', ''1'', ''0'', ''0'', ''1''],
      [''0'', ''0'', ''1'', ''2'']]"

section \<open>Properties\<close>

subsection \<open>Decoding\<close>

lemma headers_x: "py_lookup headers ''SV_Position.x'' = Inr 2"
  and headers_y: "py_lookup headers ''SV_Position.y'' = Inr 3"
  and headers_z: "py_lookup headers ''SV_Position.z'' = Inr 4"
  and headers_w: "py_lookup headers ''SV_Position.w'' = Inr 5"
  by (simp_all add: py_lookup_def headers_def)

lemma py_index_nat:
  "py_index xs (int k) e = (if k < length xs then Inr (xs ! k) else Inl e)"
  by (simp add: py_index_def Let_def)

lemma field_x: "field rt row ''SV_Position.x'' =
    (if 2 < length row then py_float rt (row ! 2) else Inl IndexError_list)"
  using py_index_nat [of row 2 IndexError_list] by (simp add: field_def headers_x)

lemma field_y: "field rt row ''SV_Position.y'' =
    (if 3 < length row then py_float rt (row ! 3) else Inl IndexError_list)"
  using py_index_nat [of row 3 IndexError_list] by (simp add: field_def headers_y)

lemma field_z: "field rt row ''SV_Position.z'' =
    (if 4 < length row then py_float rt (row ! 4) else Inl IndexError_list)"
  using py_index_nat [of row 4 IndexError_list] by (simp add: field_def headers_z)

lemma field_w: "field rt row ''SV_Position.w'' =
    (if 5 < length row then py_float rt (row ! 5) else Inl IndexError_list)"
  using py_index_nat [of row 5 IndexError_list] by (simp add: field_def headers_w)

lemmas field_simps = field_x field_y field_z field_w

lemma decode_row_ok:
  assumes "5 < length row"
    and "to_float rt (row ! 2) = Some x" and "to_float rt (row ! 3) = Some y"
    and "to_float rt (row ! 4) = Some z" and "to_float rt (row ! 5) = Some w"
    and "\<not> is_zero rt w"
  shows "decode_row rt row = Inr (quot rt x w, quot rt y w, quot rt z w)"
  using assms by (simp add: decode_row_def coordinate_def field_simps py_float_def py_div_def)

lemma decode_row_malformed:
  "malformed rt row \<longleftrightarrow> (\<exists>e. decode_row rt row = Inl e)"
  by (auto simp add: malformed_def decode_row_def coordinate_def field_simps py_float_def py_div_def
      split: option.splits)

lemma decode_row_error:
  "decode_row rt row = Inl e \<Longrightarrow> row_error e"
  by (auto simp add: decode_row_def coordinate_def field_simps py_float_def py_div_def
      split: option.splits if_splits)


lemma read_rows_error: "read_rows rt rows acc = Inl e \<Longrightarrow> row_error e"
  by (induction rows arbitrary: acc) (auto split: sum.splits dest: decode_row_error)

lemma read_rows_first_malformed:
  "first_malformed rt rows n = Some m \<Longrightarrow>
   \<exists>e. decode_row rt (rows ! (m - n)) = Inl e \<and> read_rows rt rows acc = Inl e \<and> n \<le> m"
proof (induction rows arbitrary: n acc)
  case Nil
  then show ?case by simp
next
  case (Cons row rest)
  show ?case
  proof (cases "malformed rt row")
    case True
    then obtain e where "decode_row rt row = Inl e"
      using decode_row_malformed by blast
    with True Cons.prems show ?thesis by simp
  next
    case False
    then obtain p where p: "decode_row rt row = Inr p"
      using decode_row_malformed [of rt row] by (cases "decode_row rt row") auto
    from False Cons.prems have "first_malformed rt rest (Suc n) = Some m" by simp
    from Cons.IH [OF this, of "acc @ [p]"] obtain e where
      e: "decode_row rt (rest ! (m - Suc n)) = Inl e" "read_rows rt rest (acc @ [p]) = Inl e"
        "Suc n \<le> m" by blast
    then have "(row # rest) ! (m - n) = rest ! (m - Suc n)"
      by (simp add: nth_Cons') 
    with e p show ?thesis by auto
  qed
qed

lemma first_malformed_member:
  "r \<in> set rows \<Longrightarrow> malformed rt r \<Longrightarrow> \<exists>m. first_malformed rt rows n = Some m"
  by (induction rows arbitrary: n) auto

lemma read_rows_points:
  "read_rows rt rows acc = Inr vs \<Longrightarrow>
   length vs = length acc + length rows \<and> take (length acc) vs = acc \<and>
   (\<forall>i<length rows. decode_row rt (rows ! i) = Inr (vs ! (length acc + i)))"
proof (induction rows arbitrary: acc)
  case Nil
  then show ?case by simp
next
  case (Cons row rest)
  then obtain p where p: "decode_row rt row = Inr p" and
    r: "read_rows rt rest (acc @ [p]) = Inr vs"
    by (auto split: sum.splits)
  from Cons.IH [OF r] have len: "length vs = length acc + 1 + length rest"
    and tk: "take (length acc + 1) vs = acc @ [p]"
    and ih: "\<forall>i<length rest. decode_row rt (rest ! i) = Inr (vs ! (length acc + 1 + i))"
    by simp_all
  from tk have "take (length acc) (take (length acc + 1) vs) = acc" by simp
  then have tk': "take (length acc) vs = acc" by (simp add: min_def)
  from tk len have "vs ! length acc = p"
    by (metis add.commute less_add_one nth_append_length nth_take plus_1_eq_Suc)
  with p ih have "\<forall>i<length (row # rest). decode_row rt ((row # rest) ! i) = Inr (vs ! (length acc + i))"
    by (auto simp add: nth_Cons' )
  with len tk' show ?case by simp
qed

lemma decode_empty: "decode rt [] = Inl StopIteration"
  by (simp add: decode_def)

lemma decode_stop_iff: "decode rt rows = Inl StopIteration \<longleftrightarrow> rows = []"
  by (cases rows) (auto simp add: decode_def dest: read_rows_error)

lemma execute_raised:
  "decode rt rows = Inl e \<Longrightarrow>
   execute rt rows = \<lparr>events = [Report ERROR (exn_text rt e)], result = CANCELLED\<rparr>"
  by (simp add: execute_def try_body_def)


lemma verts_fold: "verts (fold (verts_new rt) vs bm) = verts bm @ map (store_point rt) vs"
  by (induction vs arbitrary: bm) (simp_all add: verts_new_def)

lemma faces_fold: "faces (fold (verts_new rt) vs bm) = faces bm"
  by (induction vs arbitrary: bm) (simp_all add: verts_new_def)

lemma add_verts_new:
  "add_verts rt vs bmesh_new = \<lparr>verts = map (store_point rt) vs, faces = []\<rparr>"
proof -
  have "verts (add_verts rt vs bmesh_new) = map (store_point rt) vs"
    "faces (add_verts rt vs bmesh_new) = []"
    by (simp_all add: add_verts_def verts_fold faces_fold bmesh_new_def)
  then show ?thesis by (cases "add_verts rt vs bmesh_new") simp
qed

lemma py_range_step: "0 < inc \<Longrightarrow> i < stop \<Longrightarrow>
    py_range i stop inc = i # py_range (i + inc) stop inc"
  by (subst py_range.simps) simp

lemma py_range_stop: "\<not> i < stop \<Longrightarrow> py_range i stop inc = []"
  by (subst py_range.simps) simp

lemma verts_get_nat:
  "verts_get bm (int k) =
     (if k < length (verts bm) then Inr k else Inl (IndexError_verts (int k)))"
  by (simp add: verts_get_def py_index_nat)

lemma new_face_nat:
  "new_face bm (int k) =
     (if k + 2 < length (verts bm) then Inr (faces_new (k, k + 1, k + 2) bm)
      else if k + 1 < length (verts bm) then Inl (IndexError_verts (int k + 2))
      else if k < length (verts bm) then Inl (IndexError_verts (int k + 1))
      else Inl (IndexError_verts (int k)))"
proof -
  have a: "int k + 1 = int (k + 1)" "int k + 2 = int (k + 2)" by simp_all
  show ?thesis
    unfolding new_face_def a verts_get_nat by simp
qed

lemma py_range_thirds:
  "py_range (3 * int k) (int n - 1) 3 = map (\<lambda>j. 3 * int j) [k ..< (n + 1) div 3]"
proof (induction "(n + 1) div 3 - k" arbitrary: k)
  case 0
  then have "\<not> 3 * int k < int n - 1" by linarith
  with 0 show ?case by (simp add: py_range_stop)
next
  case (Suc d)
  then have lt: "k < (n + 1) div 3" by linarith
  then have "3 * int k < int n - 1" by linarith
  then have "py_range (3 * int k) (int n - 1) 3 = 3 * int k # py_range (3 * int (Suc k)) (int n - 1) 3"
    by (simp add: py_range_step algebra_simps)
  moreover from Suc have "d = (n + 1) div 3 - Suc k" by linarith
  ultimately show ?case using Suc.hyps(1) [of "Suc k"] lt by (simp add: upt_rec [of k])
qed

lemma corner_indices_thirds:
  "corner_indices vs = map (\<lambda>j. 3 * int j) [0 ..< (length vs + 1) div 3]"
  using py_range_thirds [of 0 "length vs"] by (simp add: corner_indices_def)


lemma add_faces_append:
  "add_faces vs (xs @ ys) bm = then_do (add_faces vs xs bm) (add_faces vs ys)"
  by (induction xs arbitrary: bm) (auto split: sum.splits)

lemma add_faces_thirds:
  assumes "length (verts bm) = length vs" and "\<forall>j<m. 3 * j + 2 < length vs"
  shows "add_faces vs (map (\<lambda>j. 3 * int j) [k ..< m]) bm =
    Inr (bm\<lparr>faces := faces bm @ map (\<lambda>j. (3 * j, 3 * j + 1, 3 * j + 2)) [k ..< m]\<rparr>)"
  using assms
proof (induction "m - k" arbitrary: k bm)
  case 0
  then show ?case by simp
next
  case (Suc d)
  then have lt: "k < m" and d: "d = m - Suc k" by linarith+
  with Suc.prems have in_range: "3 * k + 2 < length (verts bm)" by simp
  have "3 * int k = int (3 * k)" by simp
  with in_range have nf: "new_face bm (3 * int k) = Inr (faces_new (3 * k, 3 * k + 1, 3 * k + 2) bm)"
    using new_face_nat [of bm "3 * k"] by simp
  have len: "length (verts (faces_new (3 * k, 3 * k + 1, 3 * k + 2) bm)) = length vs"
    using Suc.prems by (simp add: faces_new_def)
  from in_range Suc.prems have guard: "3 * int k + 1 < int (length vs)" by linarith
  show ?case
    using Suc.hyps(1) [OF d len Suc.prems(2)] lt nf guard
    by (simp add: upt_rec [of k] faces_new_def)
qed

lemma build_ok:
  assumes "length vs mod 3 \<noteq> 2"
  shows "build rt vs =
    Inr \<lparr>verts = map (store_point rt) vs,
         faces = map (\<lambda>j. (3 * j, 3 * j + 1, 3 * j + 2)) [0 ..< length vs div 3]\<rparr>"
proof -
  let ?bm = "\<lparr>verts = map (store_point rt) vs, faces = []\<rparr>"
  from assms have m: "(length vs + 1) div 3 = length vs div 3" by presburger
  have "\<forall>j<length vs div 3. 3 * j + 2 < length vs" by presburger
  then have "add_faces vs (map (\<lambda>j. 3 * int j) [0 ..< length vs div 3]) ?bm =
      Inr \<lparr>verts = map (store_point rt) vs,
           faces = map (\<lambda>j. (3 * j, 3 * j + 1, 3 * j + 2)) [0 ..< length vs div 3]\<rparr>"
    using add_faces_thirds [of ?bm vs "length vs div 3" 0] by simp
  then show ?thesis
    unfolding build_def corner_indices_thirds add_verts_new m .
qed

lemma build_raises:
  assumes "length vs mod 3 = 2"
  shows "build rt vs = Inl (IndexError_verts (int (length vs)))"
proof -
  let ?m = "length vs div 3"
  let ?bm = "\<lparr>verts = map (store_point rt) vs, faces = []\<rparr>"
  from assms have m: "(length vs + 1) div 3 = Suc ?m" and n: "length vs = 3 * ?m + 2"
    by presburger+
  have "\<forall>j<?m. 3 * j + 2 < length vs" by presburger
  then have first: "add_faces vs (map (\<lambda>j. 3 * int j) [0 ..< ?m]) ?bm =
      Inr (?bm\<lparr>faces := faces ?bm @ map (\<lambda>j. (3 * j, 3 * j + 1, 3 * j + 2)) [0 ..< ?m]\<rparr>)"
    using add_faces_thirds [of ?bm vs ?m 0] by simp
  have "3 * int ?m = int (3 * ?m)" by simp
  then have last: "new_face (?bm\<lparr>faces := fs\<rparr>) (3 * int ?m) = Inl (IndexError_verts (int (length vs)))"
    for fs
    using new_face_nat [of "?bm\<lparr>faces := fs\<rparr>" "3 * ?m"] n by simp
  from n have guard: "3 * int ?m + 1 < int (length vs)" by linarith
  have "map (\<lambda>j. 3 * int j) [0 ..< Suc ?m] = map (\<lambda>j. 3 * int j) [0 ..< ?m] @ [3 * int ?m]"
    by simp
  then have "build rt vs = add_faces vs (map (\<lambda>j. 3 * int j) [0 ..< ?m] @ [3 * int ?m]) ?bm"
    unfolding build_def corner_indices_thirds add_verts_new m by simp
  also have "\<dots> = Inl (IndexError_verts (int (length vs)))"
    unfolding add_faces_append first using last guard by simp
  finally show ?thesis .
qed

lemma build_verts: "build rt vs = Inr bm \<Longrightarrow> verts bm = map (store_point rt) vs"
  using build_ok [of vs rt] build_raises [of vs rt] by (cases "length vs mod 3 = 2") auto

subsection \<open>Evaluating the reference runtime\<close>

lemma show_nat_small: "n < 10 \<Longrightarrow> show_nat n = [''0123456789'' ! n]"
  by (subst show_nat.simps) simp

lemma show_nat_large:
  "\<not> n < 10 \<Longrightarrow> show_nat n = show_nat (n div 10) @ [''0123456789'' ! (n mod 10)]"
  by (subst show_nat.simps) simp

lemma show_frac_zero: "show_frac n 0 = []"
  by (cases n) simp_all

lemmas literal_defs = literal_float_def unsigned_literal_def digit_def

lemma reference_rt_simps:
  "to_float reference_rt = literal_float" "is_zero reference_rt = (\<lambda>b. b = 0)"
  "quot reference_rt = (\<lambda>a b. a / b)" "store reference_rt = narrow32"
  "fmt reference_rt = show_float"
  "exn_text reference_rt = exception_text"
  "host_ops reference_rt = (\<lambda>bm. Inr (remove_doubles bm))"
  by (simp_all add: reference_rt_def)

lemma narrow_pos_numeral:
  "narrow_pos (numeral k) a =
     (if 16777216 \<le> a then 2 * narrow_pos (pred_numeral k) (a / 2)
      else if a < 8388608 then narrow_pos (pred_numeral k) (a * 2) / 2
      else of_int (round_even a))"
  by (simp add: numeral_eq_Suc)

lemma narrow32_0: "narrow32 0 = 0"
  and narrow32_1: "narrow32 1 = 1"
  and narrow32_2: "narrow32 2 = 2"
  and narrow32_3: "narrow32 3 = 3"
  by (simp_all add: narrow32_def narrow_pos_numeral round_even_def Let_def)

lemma narrow32_wide: "narrow32 16777217 = 16777216"
proof -
  have "\<lfloor>16777217 / 2 :: rat\<rfloor> = 8388608"
    by (rule floor_unique) simp_all
  then show ?thesis
    by (simp add: narrow32_def narrow_pos_numeral round_even_def Let_def)
qed

lemmas store_defs = store_point_def reference_rt_simps narrow32_0 narrow32_1 narrow32_2
  narrow32_3

lemmas decode_defs = decode_def decode_row_def coordinate_def field_simps
  py_float_def py_div_def reference_rt_simps literal_defs header_row_def

lemma decode_two: "decode reference_rt two_rows_csv = Inr [(0, 0, 0), (1, 0, 0)]"
  by (simp add: two_rows_csv_def decode_defs)

lemma decode_five: "decode reference_rt five_rows_csv =
    Inr [(0, 0, 0), (1, 0, 0), (0, 1, 0), (0, 0, 1), (1, 1, 0)]"
  by (simp add: five_rows_csv_def decode_defs)

section \<open>The claims\<close>

text \<open>
  C1 (the code departs from it). The claim: for N data rows, N at least 3, the builder
  makes \<open>N div 3\<close> triangles, the k-th on the vertices \<open>3k, 3k+1, 3k+2\<close>, over a vertex
  table of N entries. Lemma \<open>build_ok\<close> shows this whenever \<open>N mod 3 \<noteq> 2\<close>. With
  five data rows the corner index 3 passes the guard \<open>i + 1 < len(vertices)\<close> and
  \<^verbatim>\<open>bm.verts[5]\<close> raises: the build ends in an \<^verbatim>\<open>IndexError\<close> and the import is
  cancelled, with the mesh datablock of line 74 already made.
\<close>

theorem five_rows_raise:
  "decode reference_rt five_rows_csv =
     Inr [(0, 0, 0), (1, 0, 0), (0, 1, 0), (0, 0, 1), (1, 1, 0)] \<and>
   build reference_rt [(0, 0, 0), (1, 0, 0), (0, 1, 0), (0, 0, 1), (1, 1, 0)] =
     Inl (IndexError_verts 5) \<and>
   execute reference_rt five_rows_csv =
     \<lparr>events = [Mesh_new, Report ERROR ''BMElemSeq[index]: index 5 out of range''],
      result = CANCELLED\<rparr>"
proof -
  have b: "build reference_rt [(0, 0, 0), (1, 0, 0), (0, 1, 0), (0, 0, 1), (1, 1, 0)] =
      Inl (IndexError_verts 5)"
    using build_raises [of "[(0, 0, 0), (1, 0, 0), (0, 1, 0), (0, 0, 1), (1, 1, 0)]" reference_rt]
    by simp
  have "exception_text (IndexError_verts 5) = ''BMElemSeq[index]: index 5 out of range''"
    by (simp add: show_int_def show_nat_small)
  with b decode_five show ?thesis
    by (simp add: execute_def try_body_def reference_rt_simps)
qed

text \<open>
  C2 (the code departs from it). The claim: the one or two points left over after the
  last full triple are dropped without an error, and a file of fewer than three data rows
  imports with no triangle. One point left over is dropped (\<open>build_ok\<close>); two are not
  (\<open>build_raises\<close>). With two data rows the corner index 0 passes the guard and
  \<^verbatim>\<open>bm.verts[2]\<close> raises, so the import is cancelled.
\<close>

theorem two_rows_raise:
  "decode reference_rt two_rows_csv = Inr [(0, 0, 0), (1, 0, 0)] \<and>
   build reference_rt [(0, 0, 0), (1, 0, 0)] = Inl (IndexError_verts 2) \<and>
   execute reference_rt two_rows_csv =
     \<lparr>events = [Mesh_new, Report ERROR ''BMElemSeq[index]: index 2 out of range''],
      result = CANCELLED\<rparr>"
proof -
  have b: "build reference_rt [(0, 0, 0), (1, 0, 0)] = Inl (IndexError_verts 2)"
    using build_raises [of "[(0, 0, 0), (1, 0, 0)]" reference_rt] by simp
  have "exception_text (IndexError_verts 2) = ''BMElemSeq[index]: index 2 out of range''"
    by (simp add: show_int_def show_nat_small)
  with b decode_two show ?thesis
    by (simp add: execute_def try_body_def reference_rt_simps)
qed

text \<open>
  C3. A data row whose fields 2, 3, 4 and 5 convert to the floats x, y, z and w, with w
  not zero, decodes to exactly the point whose coordinates are the quotients x / w, y / w
  and z / w, as the runtime divides floats; nothing else is done to them. In the reference
  runtime the row with x = 2, y = 4, z = 6 and w = 2 decodes to (1, 2, 3).
\<close>

theorem decode_row_divides:
  assumes "5 < length row"
    and "to_float rt (row ! 2) = Some x" and "to_float rt (row ! 3) = Some y"
    and "to_float rt (row ! 4) = Some z" and "to_float rt (row ! 5) = Some w"
    and "\<not> is_zero rt w"
  shows "decode_row rt row = Inr (quot rt x w, quot rt y w, quot rt z w) \<and>
    decode_row reference_rt [a, b, ''2'', ''4'', ''6'', ''2''] = Inr (1, 2, 3)"
proof -
  have "decode_row reference_rt [a, b, ''2'', ''4'', ''6'', ''2''] = Inr (1, 2, 3)"
    by (simp add: decode_defs)
  with decode_row_ok [OF assms] show ?thesis by simp
qed

theorem decode_row_divides_witness:
  "5 < length [''7'', ''9'', ''3'', ''-6'', ''1.5'', ''3''] \<and>
   literal_float ''3'' = Some 3 \<and> literal_float ''-6'' = Some (- 6) \<and>
   literal_float ''1.5'' = Some (3 / 2) \<and> (3 :: rat) \<noteq> 0 \<and>
   decode_row reference_rt [''7'', ''9'', ''3'', ''-6'', ''1.5'', ''3''] = Inr (1, - 2, 1 / 2)"
proof -
  have p: "literal_float ''3'' = Some 3" "literal_float ''-6'' = Some (- 6)"
    "literal_float ''1.5'' = Some (3 / 2)"
    by (simp_all add: literal_defs)
  have "decode_row reference_rt [''7'', ''9'', ''3'', ''-6'', ''1.5'', ''3''] =
      Inr (quot reference_rt 3 3, quot reference_rt (- 6) 3, quot reference_rt (3 / 2) 3)"
    using decode_row_divides [of "[''7'', ''9'', ''3'', ''-6'', ''1.5'', ''3'']" reference_rt
        3 "- 6" "3 / 2" 3] p
    by (simp add: reference_rt_simps)
  with p show ?thesis by (simp add: reference_rt_simps)
qed

text \<open>
  C10. In every runtime, a data row whose four fields convert is rejected exactly when
  its w is zero, as the float division tests it. Every other w is accepted, a strictly
  negative one among them (a negative float is not equal to zero): the row decodes to
  exactly the quotients x / w, y / w and z / w as the runtime divides, and the decoder
  neither makes nor undoes a change of sign. In the reference runtime the row with x = 2,
  y = -4, z = 0 and w = -2 decodes to (-1, 2, 0), each coordinate of the sign opposite to
  its dividend.
\<close>

theorem negative_w_accepted:
  assumes "5 < length row"
    and "to_float rt (row ! 2) = Some x" and "to_float rt (row ! 3) = Some y"
    and "to_float rt (row ! 4) = Some z" and "to_float rt (row ! 5) = Some w"
  shows "((\<exists>e. decode_row rt row = Inl e) \<longleftrightarrow> is_zero rt w) \<and>
    (is_zero rt w \<longrightarrow> decode_row rt row = Inl ZeroDivisionError) \<and>
    (\<not> is_zero rt w \<longrightarrow>
       decode_row rt row = Inr (quot rt x w, quot rt y w, quot rt z w)) \<and>
    decode_row reference_rt [a, b, ''2'', ''-4'', ''0'', ''-2''] = Inr (- 1, 2, 0)"
proof -
  have zero: "decode_row rt row = Inl ZeroDivisionError" if "is_zero rt w"
    using assms that
    by (simp add: decode_row_def coordinate_def field_simps py_float_def py_div_def)
  have ok: "decode_row rt row = Inr (quot rt x w, quot rt y w, quot rt z w)"
    if "\<not> is_zero rt w"
    using decode_row_ok [of row rt x y z w] assms that by simp
  have "decode_row reference_rt [a, b, ''2'', ''-4'', ''0'', ''-2''] = Inr (- 1, 2, 0)"
    by (simp add: decode_defs)
  with zero ok show ?thesis by (cases "is_zero rt w") auto
qed

theorem negative_w_accepted_witness:
  "5 < length [''0'', ''0'', ''3'', ''-6'', ''9'', ''-3''] \<and>
   literal_float ''3'' = Some 3 \<and> literal_float ''-6'' = Some (- 6) \<and>
   literal_float ''9'' = Some 9 \<and> literal_float ''-3'' = Some (- 3) \<and>
   \<not> is_zero reference_rt (- 3) \<and>
   decode_row reference_rt [''0'', ''0'', ''3'', ''-6'', ''9'', ''-3''] = Inr (- 1, 2, - 3)"
proof -
  have p: "literal_float ''3'' = Some 3" "literal_float ''-6'' = Some (- 6)"
    "literal_float ''9'' = Some 9" "literal_float ''-3'' = Some (- 3)"
    by (simp_all add: literal_defs)
  have nz: "\<not> is_zero reference_rt (- 3)" by (simp add: reference_rt_simps)
  from negative_w_accepted [of "[''0'', ''0'', ''3'', ''-6'', ''9'', ''-3'']" reference_rt
      3 "- 6" 9 "- 3"] p nz
  have "decode_row reference_rt [''0'', ''0'', ''3'', ''-6'', ''9'', ''-3''] =
      Inr (quot reference_rt 3 (- 3), quot reference_rt (- 6) (- 3), quot reference_rt 9 (- 3))"
    by (simp add: reference_rt_simps)
  with p nz show ?thesis by (simp add: reference_rt_simps)
qed

lemma decode_zero_first: "decode reference_rt zero_w_first_csv = Inl ZeroDivisionError"
  by (simp add: zero_w_first_csv_def decode_defs)

lemma decode_zero_second: "decode reference_rt zero_w_second_csv = Inl ZeroDivisionError"
  by (simp add: zero_w_second_csv_def decode_defs)

lemma decode_short: "decode reference_rt short_row_csv = Inl IndexError_list"
  by (simp add: short_row_csv_def decode_defs)

text \<open>
  C4, as the specification states it, fails: the error is to identify the 1-based number
  of the malformed data row. A row whose w is zero, placed first or placed second among
  the data rows, ends the import with the same exception, the same report and the same
  events; nothing that leaves the operator tells the two row numbers apart.
\<close>

theorem row_number_not_identified:
  "first_malformed reference_rt (tl zero_w_first_csv) 1 = Some 1 \<and>
   first_malformed reference_rt (tl zero_w_second_csv) 1 = Some 2 \<and>
   decode reference_rt zero_w_first_csv = Inl ZeroDivisionError \<and>
   decode reference_rt zero_w_second_csv = Inl ZeroDivisionError \<and>
   execute reference_rt zero_w_first_csv = execute reference_rt zero_w_second_csv \<and>
   events (execute reference_rt zero_w_first_csv) = [Report ERROR ''float division by zero'']"
proof -
  have "first_malformed reference_rt (tl zero_w_first_csv) 1 = Some 1"
    by (simp add: zero_w_first_csv_def malformed_def reference_rt_simps literal_defs)
  moreover have "first_malformed reference_rt (tl zero_w_second_csv) 1 = Some 2"
    by (simp add: zero_w_second_csv_def malformed_def reference_rt_simps literal_defs)
  ultimately show ?thesis
    using execute_raised [OF decode_zero_first] execute_raised [OF decode_zero_second]
      decode_zero_first decode_zero_second
    by (simp add: reference_rt_simps)
qed

text \<open>
  C4, amended. When some data row is malformed (fewer than 6 fields, or one of the fields
  2 to 5 not a float, or w equal to zero), the whole import fails with the exception that
  the first malformed row raises: an \<^verbatim>\<open>IndexError\<close>, a \<^verbatim>\<open>ValueError\<close> or a
  \<^verbatim>\<open>ZeroDivisionError\<close>, none of which carries a row number. The operator makes
  no mesh, no scene object and no text: its only call is one ERROR report with that
  exception's text, and it returns CANCELLED.
\<close>

theorem malformed_row_cancels:
  assumes "r \<in> set rest" and "malformed rt r"
  shows "\<exists>n e. first_malformed rt rest 1 = Some n \<and>
    decode_row rt (rest ! (n - 1)) = Inl e \<and> row_error e \<and>
    decode rt (header # rest) = Inl e \<and>
    execute rt (header # rest) =
      \<lparr>events = [Report ERROR (exn_text rt e)], result = CANCELLED\<rparr>"
proof -
  from assms obtain n where n: "first_malformed rt rest 1 = Some n"
    using first_malformed_member by blast
  from read_rows_first_malformed [OF n, of "[]"] obtain e where
    e: "decode_row rt (rest ! (n - 1)) = Inl e" "read_rows rt rest [] = Inl e"
    by blast
  then have d: "decode rt (header # rest) = Inl e" by (simp add: decode_def)
  from e(1) have "row_error e" by (rule decode_row_error)
  with n e(1) d execute_raised [OF d] show ?thesis by blast
qed

theorem malformed_row_cancels_witness:
  "[''0'', ''0'', ''1'', ''2''] \<in> set (tl short_row_csv) \<and>
   malformed reference_rt [''0'', ''0'', ''1'', ''2''] \<and>
   first_malformed reference_rt (tl short_row_csv) 1 = Some 2 \<and>
   decode reference_rt short_row_csv = Inl IndexError_list \<and>
   execute reference_rt short_row_csv =
     \<lparr>events = [Report ERROR ''list index out of range''], result = CANCELLED\<rparr>"
proof -
  have m: "[''0'', ''0'', ''1'', ''2''] \<in> set (tl short_row_csv)"
    by (simp add: short_row_csv_def)
  have b: "malformed reference_rt [''0'', ''0'', ''1'', ''2'']"
    by (simp add: malformed_def)
  have s: "short_row_csv = header_row # tl short_row_csv"
    by (simp add: short_row_csv_def)
  from malformed_row_cancels [OF m b, of header_row] obtain n e where
    ne: "first_malformed reference_rt (tl short_row_csv) 1 = Some n"
      "decode reference_rt (header_row # tl short_row_csv) = Inl e"
      "execute reference_rt (header_row # tl short_row_csv) =
        \<lparr>events = [Report ERROR (exn_text reference_rt e)], result = CANCELLED\<rparr>"
    by blast
  from ne(2) s decode_short have "e = IndexError_list" by simp
  moreover have "first_malformed reference_rt (tl short_row_csv) 1 = Some 2"
    by (simp add: short_row_csv_def malformed_def reference_rt_simps literal_defs)
  ultimately show ?thesis
    using m b ne(3) s decode_short by (simp add: reference_rt_simps)
qed

text \<open>
  C5. On a reader with no row at all the header skip of line 63 raises
  \<^verbatim>\<open>StopIteration\<close>, the missing-header error of the specification. It is not one of
  the errors a data row raises, and it is raised by the empty input only. The import is
  cancelled with one ERROR report.
\<close>

theorem empty_input_stops:
  "decode rt [] = Inl StopIteration \<and> \<not> row_error StopIteration \<and>
   (decode rt rows = Inl StopIteration \<longleftrightarrow> rows = []) \<and>
   execute rt [] = \<lparr>events = [Report ERROR (exn_text rt StopIteration)], result = CANCELLED\<rparr>"
  using decode_stop_iff [of rt rows] execute_raised [OF decode_empty, of rt]
  by (simp add: decode_empty)

theorem empty_input_stops_witness:
  "decode reference_rt [] = Inl StopIteration \<and>
   decode reference_rt [header_row] = Inr [] \<and>
   execute reference_rt [] = \<lparr>events = [Report ERROR []], result = CANCELLED\<rparr>"
  using empty_input_stops [of reference_rt "[header_row]"]
  by (simp add: reference_rt_simps decode_def)

subsection \<open>Reports and written text\<close>

lemma reports_writes: "reports (map Text_write xs) = []"
  by (induction xs) simp_all

lemma reports_append: "reports (xs @ ys) = reports xs @ reports ys"
  by (induction xs rule: reports.induct) simp_all

lemma text_written_writes: "text_written (map Text_write xs) = xs"
  by (induction xs) simp_all

lemma text_written_append: "text_written (xs @ ys) = text_written xs @ text_written ys"
  by (induction xs rule: text_written.induct) simp_all

lemma try_body_reports: "reports (fst (try_body rt rows)) = []"
  by (simp add: try_body_def reports_writes split: sum.splits)

lemma execute_reports:
  "reports (events (execute rt rows)) =
     (case snd (try_body rt rows) of
        Some e \<Rightarrow> [(ERROR, exn_text rt e)]
      | None \<Rightarrow> [(INFO, ''Mesh imported successfully.'')])"
  using try_body_reports [of rt rows]
  by (cases "try_body rt rows") (simp add: execute_def reports_append split: option.splits)

lemma execute_result:
  "result (execute rt rows) =
     (case snd (try_body rt rows) of Some e \<Rightarrow> CANCELLED | None \<Rightarrow> FINISHED)"
  by (cases "try_body rt rows") (simp add: execute_def split: option.splits)

lemma decode_three:
  "decode reference_rt three_rows_csv = Inr [(1, 2, 3), (1, 0, 0), (0, 1, 0)]"
  by (simp add: three_rows_csv_def decode_defs)

lemma build_three:
  "build reference_rt [(1, 2, 3), (1, 0, 0), (0, 1, 0)] =
     Inr \<lparr>verts = [(1, 2, 3), (1, 0, 0), (0, 1, 0)], faces = [(0, 1, 2)]\<rparr>"
  using build_ok [of "[(1, 2, 3), (1, 0, 0), (0, 1, 0)]" reference_rt]
  by (simp add: store_defs)

text \<open>
  C6. Every run of the operator makes exactly one report. When the body of the
  \<^verbatim>\<open>try\<close> ends with an exception, it is an ERROR report whose message is the text
  of that exception, and the result is CANCELLED; otherwise it is an INFO report with the
  message "Mesh imported successfully." and the result is FINISHED.
\<close>

theorem exactly_one_report:
  "length (reports (events (execute rt rows))) = 1 \<and>
   ((\<exists>e. snd (try_body rt rows) = Some e \<and>
        reports (events (execute rt rows)) = [(ERROR, exn_text rt e)] \<and>
        result (execute rt rows) = CANCELLED) \<or>
    (snd (try_body rt rows) = None \<and>
        reports (events (execute rt rows)) = [(INFO, ''Mesh imported successfully.'')] \<and>
        result (execute rt rows) = FINISHED))"
  by (cases "snd (try_body rt rows)") (simp_all add: execute_reports execute_result)

theorem exactly_one_report_witness:
  "reports (events (execute reference_rt three_rows_csv)) =
     [(INFO, ''Mesh imported successfully.'')] \<and>
   result (execute reference_rt three_rows_csv) = FINISHED \<and>
   reports (events (execute reference_rt short_row_csv)) =
     [(ERROR, ''list index out of range'')] \<and>
   result (execute reference_rt short_row_csv) = CANCELLED"
proof -
  have ok: "snd (try_body reference_rt three_rows_csv) = None"
    by (simp add: try_body_def decode_three build_three reference_rt_simps)
  have bad: "snd (try_body reference_rt short_row_csv) = Some IndexError_list"
    by (simp add: try_body_def decode_short)
  from exactly_one_report [of reference_rt three_rows_csv]
    exactly_one_report [of reference_rt short_row_csv] ok bad
  show ?thesis by (simp add: reference_rt_simps)
qed

lemma decode_wide: "decode reference_rt wide_csv = Inr [(16777217, 0, 0)]"
  by (simp add: wide_csv_def decode_defs)

text \<open>
  C7, as the specification states it, fails: vertex \<open>i\<close> of the table is to equal
  decoded point \<open>i\<close>. The host keeps the coordinates of a vertex as 32-bit floats, so a
  decoded coordinate that no 32-bit float holds is stored as its neighbour: the point
  decoded with x = 16777217 is the vertex with x = 16777216.
\<close>

theorem stored_vertex_differs:
  "decode reference_rt wide_csv = Inr [(16777217, 0, 0)] \<and>
   build reference_rt [(16777217, 0, 0)] = Inr \<lparr>verts = [(16777216, 0, 0)], faces = []\<rparr> \<and>
   verts (add_verts reference_rt [(16777217, 0, 0)] bmesh_new) ! 0 \<noteq> [(16777217, 0, 0)] ! 0"
proof -
  have s: "store_point reference_rt (16777217, 0, 0) = (16777216, 0, 0)"
    by (simp add: store_defs narrow32_wide)
  have "build reference_rt [(16777217, 0, 0)] = Inr \<lparr>verts = [(16777216, 0, 0)], faces = []\<rparr>"
    using build_ok [of "[(16777217, 0, 0)]" reference_rt] s by simp
  with decode_wide s show ?thesis by (simp add: add_verts_new)
qed

text \<open>
  C7, amended. The vertex table is built with no deduplication: every decoded point,
  duplicates included, becomes one vertex at its arrival index, so the table has as many
  entries as there are decoded points, in input order, and vertex \<open>i\<close> is decoded point
  \<open>i\<close> as the host stores it, each coordinate narrowed to a 32-bit float. The face loop
  leaves the table so. The table equals the list of decoded points when storing changes
  none of them. Point \<open>i\<close> is the one decoded from data row \<open>i\<close> (counting from 0, after
  the header).
\<close>

theorem vertex_table_is_stored_points:
  "verts (add_verts rt vertices bmesh_new) = map (store_point rt) vertices \<and>
   length (verts (add_verts rt vertices bmesh_new)) = length vertices \<and>
   (\<forall>i<length vertices.
      verts (add_verts rt vertices bmesh_new) ! i = store_point rt (vertices ! i)) \<and>
   (\<forall>bm. build rt vertices = Inr bm \<longrightarrow> verts bm = map (store_point rt) vertices) \<and>
   ((\<forall>p\<in>set vertices. store_point rt p = p) \<longrightarrow>
      verts (add_verts rt vertices bmesh_new) = vertices) \<and>
   (\<forall>ps. decode rt (header # rest) = Inr ps \<longrightarrow>
      length ps = length rest \<and>
      (\<forall>i<length rest. decode_row rt (rest ! i) = Inr (ps ! i)))"
proof -
  have "length ps = length rest \<and> (\<forall>i<length rest. decode_row rt (rest ! i) = Inr (ps ! i))"
    if "decode rt (header # rest) = Inr ps" for ps
    using read_rows_points [of rt rest "[]" ps] that by (simp add: decode_def)
  moreover have "map (store_point rt) vertices = vertices"
    if "\<forall>p\<in>set vertices. store_point rt p = p"
    using that by (simp add: map_idI)
  ultimately show ?thesis
    using build_verts [where rt = rt and vs = vertices] by (simp add: add_verts_new)
qed

theorem vertex_table_is_stored_points_witness:
  "verts (add_verts reference_rt [(0, 0, 0), (0, 0, 0), (1, 0, 0)] bmesh_new) =
     [(0, 0, 0), (0, 0, 0), (1, 0, 0)] \<and>
   build reference_rt [(0, 0, 0), (0, 0, 0), (1, 0, 0)] =
     Inr \<lparr>verts = [(0, 0, 0), (0, 0, 0), (1, 0, 0)], faces = [(0, 1, 2)]\<rparr> \<and>
   decode reference_rt three_rows_csv = Inr [(1, 2, 3), (1, 0, 0), (0, 1, 0)] \<and>
   decode_row reference_rt (tl three_rows_csv ! 0) = Inr (1, 2, 3)"
proof -
  have b: "build reference_rt [(0, 0, 0), (0, 0, 0), (1, 0, 0)] =
      Inr \<lparr>verts = [(0, 0, 0), (0, 0, 0), (1, 0, 0)], faces = [(0, 1, 2)]\<rparr>"
    using build_ok [of "[(0, 0, 0), (0, 0, 0), (1, 0, 0)]" reference_rt]
    by (simp add: store_defs)
  have s: "three_rows_csv = header_row # tl three_rows_csv"
    by (simp add: three_rows_csv_def)
  have "decode reference_rt (header_row # tl three_rows_csv) = Inr [(1, 2, 3), (1, 0, 0), (0, 1, 0)]"
    using decode_three s by simp
  with vertex_table_is_stored_points [of reference_rt "[(0, 0, 0), (0, 0, 0), (1, 0, 0)]"
      header_row "tl three_rows_csv"]
  have v: "verts (add_verts reference_rt [(0, 0, 0), (0, 0, 0), (1, 0, 0)] bmesh_new) =
      map (store_point reference_rt) [(0, 0, 0), (0, 0, 0), (1, 0, 0)]"
    and r: "\<forall>i<length (tl three_rows_csv).
      decode_row reference_rt (tl three_rows_csv ! i) =
        Inr ([(1, 2, 3), (1, 0, 0), (0, 1, 0)] ! i)"
    by blast+
  have "0 < length (tl three_rows_csv)" by (simp add: three_rows_csv_def)
  with r have "decode_row reference_rt (tl three_rows_csv ! 0) =
      Inr ([(1, 2, 3), (1, 0, 0), (0, 1, 0)] ! 0)"
    by blast
  then have "decode_row reference_rt (tl three_rows_csv ! 0) = Inr (1, 2, 3)" by simp
  moreover from v have "verts (add_verts reference_rt [(0, 0, 0), (0, 0, 0), (1, 0, 0)] bmesh_new) =
      [(0, 0, 0), (0, 0, 0), (1, 0, 0)]"
    by (simp add: store_defs)
  ultimately show ?thesis using b decode_three by simp
qed

subsection \<open>The debug listing\<close>

lemma show_float_0: "show_float 0 = ''0.0''"
  and show_float_1: "show_float 1 = ''1.0''"
  and show_float_2: "show_float 2 = ''2.0''"
  and show_float_3: "show_float 3 = ''3.0''"
  by (simp_all add: show_float_def show_nat_small show_frac_zero Let_def)

lemma text_written_lines: "text_written (map (Text_write \<circ> f) xs) = map f xs"
  by (induction xs) simp_all

lemma decode_duplicate:
  "decode reference_rt duplicate_csv =
     Inr [(0, 0, 0), (1, 0, 0), (0, 1, 0), (0, 0, 0), (1, 0, 0), (0, 1, 1)]"
  by (simp add: duplicate_csv_def decode_defs)

lemma build_duplicate:
  "build reference_rt [(0, 0, 0), (1, 0, 0), (0, 1, 0), (0, 0, 0), (1, 0, 0), (0, 1, 1)] =
     Inr \<lparr>verts = [(0, 0, 0), (1, 0, 0), (0, 1, 0), (0, 0, 0), (1, 0, 0), (0, 1, 1)],
          faces = [(0, 1, 2), (3, 4, 5)]\<rparr>"
proof -
  have "[0 ..< 2 :: nat] = [0, 1]" by (simp add: numeral_2_eq_2)
  with build_ok [of "[(0, 0, 0), (1, 0, 0), (0, 1, 0), (0, 0, 0), (1, 0, 0), (0, 1, 1)]"
      reference_rt]
  show ?thesis by (simp add: store_defs)
qed

lemma merge_duplicate:
  "remove_doubles
     \<lparr>verts = [(0, 0, 0), (1, 0, 0), (0, 1, 0), (0, 0, 0), (1, 0, 0), (0, 1, 1)],
      faces = [(0, 1, 2), (3, 4, 5)]\<rparr> =
   \<lparr>verts = [(0, 0, 0), (1, 0, 0), (0, 1, 0), (0, 1, 1)], faces = [(0, 1, 2), (0, 1, 3)]\<rparr>"
  by (simp add: remove_doubles_def close_to_def)

text \<open>
  C8, as the specification states it, fails: the listing is to have one line per final
  vertex of the output mesh. The loop of line 137 runs over \<^verbatim>\<open>vertices\<close>, the
  decoded points, not over the mesh the host is left with. On six points of which two
  repeat earlier ones, the merge by distance leaves four vertices and the listing has
  six vertex lines.
\<close>

theorem listing_not_final_vertices:
  "result (execute reference_rt duplicate_csv) = FINISHED \<and>
   final_verts (events (execute reference_rt duplicate_csv)) =
     Some [(0, 0, 0), (1, 0, 0), (0, 1, 0), (0, 1, 1)] \<and>
   text_written (events (execute reference_rt duplicate_csv)) =
     [''Vertices:'' @ newline,
      ''(0.0, 0.0, 0.0)'' @ newline, ''(1.0, 0.0, 0.0)'' @ newline,
      ''(0.0, 1.0, 0.0)'' @ newline, ''(0.0, 0.0, 0.0)'' @ newline,
      ''(1.0, 0.0, 0.0)'' @ newline, ''(0.0, 1.0, 1.0)'' @ newline]"
  by (simp add: execute_def try_body_def decode_duplicate build_duplicate merge_duplicate
      reference_rt_simps debug_writes_def vertex_line_def show_float_0 show_float_1
      del: One_nat_def)

text \<open>
  C8, amended. On every successful import the text written is the line "Vertices:"
  followed by exactly one line per decoded point, that is one per data row, in input
  order, each formatted as (x, y, z). These are the vertices before the host's merge and
  cleanup, whatever the host makes of the mesh.
\<close>

theorem debug_listing:
  assumes "result (execute rt rows) = FINISHED"
  shows "\<exists>vertices. decode rt rows = Inr vertices \<and> length vertices = length rows - 1 \<and>
    text_written (events (execute rt rows)) =
      (''Vertices:'' @ newline) # map (vertex_line rt) vertices"
proof -
  from assms obtain vertices bm m where
    d: "decode rt rows = Inr vertices" and "build rt vertices = Inr bm"
    and "host_ops rt bm = Inr m"
    by (auto simp add: execute_def try_body_def split: sum.splits)
  then have "text_written (events (execute rt rows)) =
      (''Vertices:'' @ newline) # map (vertex_line rt) vertices"
    by (simp add: execute_def try_body_def text_written_append text_written_lines
        debug_writes_def)
  moreover from d have "length vertices = length rows - 1"
    using read_rows_points [of rt "tl rows" "[]" vertices]
    by (cases rows) (simp_all add: decode_def)
  ultimately show ?thesis using d by simp
qed

theorem debug_listing_witness:
  "result (execute reference_rt three_rows_csv) = FINISHED \<and>
   decode reference_rt three_rows_csv = Inr [(1, 2, 3), (1, 0, 0), (0, 1, 0)] \<and>
   text_written (events (execute reference_rt three_rows_csv)) =
     [''Vertices:'' @ newline, ''(1.0, 2.0, 3.0)'' @ newline,
      ''(1.0, 0.0, 0.0)'' @ newline, ''(0.0, 1.0, 0.0)'' @ newline]"
proof -
  have f: "result (execute reference_rt three_rows_csv) = FINISHED"
    by (simp add: execute_def try_body_def decode_three build_three reference_rt_simps)
  from debug_listing [OF f] decode_three f show ?thesis
    by (auto simp add: vertex_line_def reference_rt_simps show_float_0 show_float_1
        show_float_2 show_float_3)
qed

subsection \<open>Two runs on the same input\<close>















end
